theory Spec2Isabelle
  imports Main "HOL-Library.Sublist"
begin

section \<open>The rendered DOM, as the color detector reads it\<close>

text \<open>
  \<^verbatim>\<open>detectColors\<close> of \<^verbatim>\<open>packages/block-library/src/navigation/edit.js\<close> reads three
  things of a DOM node: its computed style (\<^verbatim>\<open>color\<close> and \<^verbatim>\<open>backgroundColor\<close>), its
  \<^verbatim>\<open>parentNode\<close> and the parent's \<^verbatim>\<open>nodeType\<close>. A node is modelled with exactly these
  three. A node carries its parent, so the ancestry of a node is a finite chain, as it
  is in a DOM tree; \<^verbatim>\<open>parentNode\<close> is \<open>None\<close> where the DOM has \<^verbatim>\<open>null\<close>.
\<close>

datatype style = Style (css_color: string) (css_backgroundColor: string)

datatype node = Node (nodeType: nat) (computedStyle: style) (parentNode: "node option")

text \<open>\<^verbatim>\<open>Node.ELEMENT_NODE\<close>, the same constant on every node.\<close>

definition ELEMENT_NODE :: nat where
  "ELEMENT_NODE = 1"

text \<open>
  The document, as far as \<^verbatim>\<open>getElementById\<close> is concerned: the elements with an id, in
  document order (the first match is returned).
\<close>

type_synonym document = "(string \<times> node) list"

definition getElementById :: "document \<Rightarrow> string \<Rightarrow> node option" where
  "getElementById doc i = map_of doc i"

definition getBlockDOMNode :: "string \<Rightarrow> document \<Rightarrow> node option" where
  "getBlockDOMNode cid doc = getElementById doc (''block-'' @ cid)"

text \<open>
  \<^verbatim>\<open>getComputedStyle( node )\<close> is a call into the browser. The list of the nodes it was
  called on, in order, is threaded through as state, so that what the detector reads is
  part of its result.
\<close>

definition getComputedStyle :: "node \<Rightarrow> node list \<Rightarrow> style \<times> node list" where
  "getComputedStyle n reads = (computedStyle n, reads @ [n])"

definition transparent :: string where
  "transparent = ''rgba(0, 0, 0, 0)''"

text \<open>
  The \<^verbatim>\<open>while\<close> loop of \<^verbatim>\<open>detectColors\<close>; its variables are \<^verbatim>\<open>backgroundColorNode\<close> and
  \<^verbatim>\<open>backgroundColor\<close>. The result is their value when the loop exits.
\<close>

function backgroundLoop :: "node \<Rightarrow> string \<Rightarrow> node list \<Rightarrow> (node \<times> string) \<times> node list" where
  "backgroundLoop backgroundColorNode backgroundColor reads =
     (if backgroundColor = transparent
         \<and> parentNode backgroundColorNode \<noteq> None
         \<and> nodeType (the (parentNode backgroundColorNode)) = ELEMENT_NODE
      then backgroundLoop
             (the (parentNode backgroundColorNode))
             (css_backgroundColor
                (fst (getComputedStyle (the (parentNode backgroundColorNode)) reads)))
             (snd (getComputedStyle (the (parentNode backgroundColorNode)) reads))
      else ((backgroundColorNode, backgroundColor), reads))"
  by pat_completeness auto
termination
proof (relation "measure (\<lambda>(n, bg, reads). size n)")
  show "wf (measure (\<lambda>(n, bg, reads). size n))"
    by simp
next
  fix backgroundColorNode :: node and backgroundColor :: string and reads :: "node list"
  assume "backgroundColor = transparent
         \<and> parentNode backgroundColorNode \<noteq> None
         \<and> nodeType (the (parentNode backgroundColorNode)) = ELEMENT_NODE"
  then obtain p where "parentNode backgroundColorNode = Some p"
    by auto
  then have "size p < size backgroundColorNode"
    by (cases backgroundColorNode) simp
  with \<open>parentNode backgroundColorNode = Some p\<close>
  show "((the (parentNode backgroundColorNode),
          css_backgroundColor
            (fst (getComputedStyle (the (parentNode backgroundColorNode)) reads)),
          snd (getComputedStyle (the (parentNode backgroundColorNode)) reads)),
         (backgroundColorNode, backgroundColor, reads))
        \<in> measure (\<lambda>(n, bg, reads). size n)"
    by simp
qed

text \<open>
  \<^verbatim>\<open>detectColors( clientId, setColor, setBackground )\<close>. The two callbacks are arguments
  of the source and arguments here: each takes the reported value and changes a state
  of any type \<open>'s\<close>. The state of a call is the list of style reads and that \<open>'s\<close>.
  \<^verbatim>\<open>document\<close> is a global of the source and a parameter here.
\<close>

definition detectColors ::
  "document \<Rightarrow> string \<Rightarrow> (string \<Rightarrow> 's \<Rightarrow> 's) \<Rightarrow> (string \<Rightarrow> 's \<Rightarrow> 's)
     \<Rightarrow> node list \<times> 's \<Rightarrow> node list \<times> 's" where
  "detectColors doc cid setColor setBackground io =
     (case getBlockDOMNode cid doc of
        None \<Rightarrow> io
      | Some colorsDetectionElement \<Rightarrow>
          (let (reads0, s0) = io;
               (style1, reads1) = getComputedStyle colorsDetectionElement reads0;
               s1 = setColor (css_color style1) s0;
               (style2, reads2) = getComputedStyle colorsDetectionElement reads1;
               ((backgroundColorNode, backgroundColor), reads3) =
                  backgroundLoop colorsDetectionElement (css_backgroundColor style2) reads2
           in (reads3, setBackground backgroundColor s1)))"

subsection \<open>The nodes the detector visits\<close>

text \<open>
  The parent elements of a node, the node first: the chain stops at a node without a
  parent or whose parent is not an element (the document).
\<close>

function elementChain :: "node \<Rightarrow> node list" where
  "elementChain n =
     n # (if parentNode n \<noteq> None \<and> nodeType (the (parentNode n)) = ELEMENT_NODE
          then elementChain (the (parentNode n)) else [])"
  by pat_completeness auto
termination
proof (relation "measure size")
  show "wf (measure (size :: node \<Rightarrow> nat))"
    by simp
next
  fix n :: node
  assume "parentNode n \<noteq> None \<and> nodeType (the (parentNode n)) = ELEMENT_NODE"
  then obtain p where "parentNode n = Some p"
    by auto
  then have "size p < size n"
    by (cases n) simp
  with \<open>parentNode n = Some p\<close> show "(the (parentNode n), n) \<in> measure size"
    by simp
qed

text \<open>
  The test of the loop on a node: its computed background is the string
  \<^verbatim>\<open>'rgba(0, 0, 0, 0)'\<close>, transparent black, which is what the keyword \<^verbatim>\<open>transparent\<close>
  computes to.
\<close>

definition isTransparentBlack :: "node \<Rightarrow> bool" where
  "isTransparentBlack n = (css_backgroundColor (computedStyle n) = transparent)"

text \<open>
  The nodes of the chain that the loop passes through: the nodes whose background is
  transparent black, up to and including the first node whose background is anything
  else; the whole chain when there is none.
\<close>

definition loopWalk :: "node \<Rightarrow> node list" where
  "loopWalk n =
     takeWhile isTransparentBlack (elementChain n)
       @ take 1 (dropWhile isTransparentBlack (elementChain n))"

subsection \<open>What the specification says the detector visits\<close>

text \<open>
  The specification speaks of a fully transparent background: a color whose alpha
  channel is zero. A computed color with an alpha channel is serialised as
  \<^verbatim>\<open>rgba(r, g, b, a)\<close>, so it is fully transparent when it has this form and its last
  component is \<^verbatim>\<open>0\<close>. Transparent black is one such color; \<^verbatim>\<open>rgba(255, 255, 255, 0)\<close>
  is another.
\<close>

definition specFullyTransparent :: "string \<Rightarrow> bool" where
  "specFullyTransparent bg = (prefix ''rgba('' bg \<and> suffix '', 0)'' bg)"

definition isFullyTransparent :: "node \<Rightarrow> bool" where
  "isFullyTransparent n = specFullyTransparent (css_backgroundColor (computedStyle n))"

text \<open>
  The specification's walk: from the node upwards through the fully transparent nodes
  of the chain, up to and including the first node whose background is not fully
  transparent; the whole chain when there is none.
\<close>

definition specWalk :: "node \<Rightarrow> node list" where
  "specWalk n =
     takeWhile isFullyTransparent (elementChain n)
       @ take 1 (dropWhile isFullyTransparent (elementChain n))"

section \<open>Blocks and the block-editor store\<close>

text \<open>
  A block of the editor's tree, with the two fields this file reads: \<^verbatim>\<open>clientId\<close> and
  \<^verbatim>\<open>innerBlocks\<close>.
\<close>

datatype block = Block (blockClientId: string) (innerBlocks: "block list")

text \<open>
  The argument of \<^verbatim>\<open>updateInnerBlocks\<close>: a list of blocks, or one of JavaScript's two
  nullish values.
\<close>

datatype blocks_arg = JUndefined | JNull | JArray "block list"

text \<open>\<^verbatim>\<open>blocks?.length\<close>; \<open>None\<close> is \<^verbatim>\<open>undefined\<close>.\<close>

fun optionalLength :: "blocks_arg \<Rightarrow> nat option" where
  "optionalLength JUndefined = None"
| "optionalLength JNull = None"
| "optionalLength (JArray bs) = Some (length bs)"

text \<open>
  The actions this file dispatches to the block-editor store. The store and its reducer
  are outside this file: what the component does to the store is the list of the
  actions it has dispatched, in order.
\<close>

datatype action =
    ReplaceInnerBlocks string blocks_arg bool
  | SelectBlock string

text \<open>What a call of \<^verbatim>\<open>updateInnerBlocks\<close> returns: \<^verbatim>\<open>false\<close>, or nothing.\<close>

datatype returned = ReturnedFalse | ReturnedUndefined

text \<open>
  \<^verbatim>\<open>updateInnerBlocks( blocks )\<close> as \<^verbatim>\<open>withDispatch\<close> binds it for the block \<open>cid\<close>.
\<close>

definition updateInnerBlocks :: "string \<Rightarrow> blocks_arg \<Rightarrow> action list \<Rightarrow> returned \<times> action list" where
  "updateInnerBlocks cid blocks dispatched0 =
     (if optionalLength blocks = Some 0 then (ReturnedFalse, dispatched0)
      else (ReturnedUndefined, dispatched0 @ [ReplaceInnerBlocks cid blocks True]))"

text \<open>
  The selectors of the store that \<^verbatim>\<open>withSelect\<close> calls, at the store's current state.
  \<^verbatim>\<open>getSelectedBlockClientId\<close> is \<open>None\<close> when no block is selected.
\<close>

record select =
  getBlocks :: "string \<Rightarrow> block list"
  getClientIdsOfDescendants :: "string option list \<Rightarrow> string list option"
  hasSelectedInnerBlock :: "string \<Rightarrow> bool \<Rightarrow> bool"
  getSelectedBlockClientId :: "string option"

record select_props =
  isImmediateParentOfSelectedBlock :: bool
  selectedBlockHasDescendants :: bool
  subMenuClientId :: "string option"
  hasExistingNavItems :: bool

text \<open>
  The function given to \<^verbatim>\<open>withSelect\<close>. \<^verbatim>\<open>Array.prototype.find\<close> is \<open>List.find\<close>; a number
  is truthy when it is not zero; \<^verbatim>\<open>innerBlocks[ 0 ]\<close> of an empty array is \<^verbatim>\<open>undefined\<close>.
\<close>

definition withSelect :: "select \<Rightarrow> string \<Rightarrow> select_props" where
  "withSelect sel cid =
     (let blocks = getBlocks sel cid;
          isImmediateParent = hasSelectedInnerBlock sel cid False;
          selectedBlockId = getSelectedBlockClientId sel;
          selectedHasDescendants =
            (case getClientIdsOfDescendants sel [selectedBlockId] of
               None \<Rightarrow> False
             | Some ids \<Rightarrow> length ids \<noteq> 0);
          subMenu =
            (case List.find (\<lambda>b. length (innerBlocks b) \<noteq> 0) blocks of
               None \<Rightarrow> None
             | Some b \<Rightarrow>
                 (case innerBlocks b of
                    [] \<Rightarrow> None
                  | g # gs \<Rightarrow> Some (blockClientId g)))
      in \<lparr> isImmediateParentOfSelectedBlock = isImmediateParent,
           selectedBlockHasDescendants = selectedHasDescendants,
           subMenuClientId = subMenu,
           hasExistingNavItems = (length blocks \<noteq> 0) \<rparr>)"

section \<open>The Navigation component\<close>

record attributes =
  orientation :: "string option"
  itemsJustification :: "string option"
  showSubmenuIcon :: bool
  isResponsive :: bool

text \<open>A color slot of \<^verbatim>\<open>withColors\<close>: its \<^verbatim>\<open>color\<close> and its \<^verbatim>\<open>class\<close>.\<close>

record color_slot =
  slotColor :: "string option"
  slotClass :: "string option"

text \<open>
  The props of \<^verbatim>\<open>Navigation\<close>: the ones \<^verbatim>\<open>withSelect\<close> derives, and the others. The
  callbacks among the props (\<^verbatim>\<open>setAttributes\<close>, \<^verbatim>\<open>updateInnerBlocks\<close>, the color setters)
  are functions below. \<^verbatim>\<open>hasSubmenuIndicatorSetting\<close> and \<^verbatim>\<open>hasItemJustificationControls\<close>
  default to true in the source when not given.
\<close>

record props = select_props +
  attributes :: attributes
  clientId :: string
  isSelected :: bool
  textColor :: color_slot
  backgroundColor :: color_slot
  overlayTextColor :: color_slot
  overlayBackgroundColor :: color_slot
  hasSubmenuIndicatorSetting :: bool
  hasItemJustificationControls :: bool

text \<open>The six \<^verbatim>\<open>useState\<close> cells of the component; \<open>None\<close> is \<^verbatim>\<open>undefined\<close>.\<close>

record nav_state =
  isPlaceholderShown :: bool
  isResponsiveMenuOpen :: bool
  detectedBackgroundColor :: "string option"
  detectedColor :: "string option"
  detectedOverlayBackgroundColor :: "string option"
  detectedOverlayColor :: "string option"

text \<open>
  A mounted component: its current props, its state cells, the actions it has
  dispatched and the computed-style reads it has made.
\<close>

record component =
  props :: props
  cells :: nav_state
  dispatched :: "action list"
  styleReads :: "node list"

text \<open>What the module reads of its environment: \<^verbatim>\<open>Platform.OS\<close> and \<^verbatim>\<open>document\<close>.\<close>

record env =
  platformOS :: string
  document :: document

text \<open>The first render: every \<^verbatim>\<open>useState\<close> takes its initial value.\<close>

definition mount :: "props \<Rightarrow> component" where
  "mount p =
     \<lparr> props = p,
       cells = \<lparr> isPlaceholderShown = (\<not> hasExistingNavItems p),
                 isResponsiveMenuOpen = False,
                 detectedBackgroundColor = None,
                 detectedColor = None,
                 detectedOverlayBackgroundColor = None,
                 detectedOverlayColor = None \<rparr>,
       dispatched = [],
       styleReads = [] \<rparr>"

definition setDetectedColor :: "string \<Rightarrow> nav_state \<Rightarrow> nav_state" where
  "setDetectedColor v s = s\<lparr>detectedColor := Some v\<rparr>"

definition setDetectedBackgroundColor :: "string \<Rightarrow> nav_state \<Rightarrow> nav_state" where
  "setDetectedBackgroundColor v s = s\<lparr>detectedBackgroundColor := Some v\<rparr>"

definition setDetectedOverlayColor :: "string \<Rightarrow> nav_state \<Rightarrow> nav_state" where
  "setDetectedOverlayColor v s = s\<lparr>detectedOverlayColor := Some v\<rparr>"

definition setDetectedOverlayBackgroundColor :: "string \<Rightarrow> nav_state \<Rightarrow> nav_state" where
  "setDetectedOverlayBackgroundColor v s = s\<lparr>detectedOverlayBackgroundColor := Some v\<rparr>"

definition enableContrastChecking :: "env \<Rightarrow> bool" where
  "enableContrastChecking e = (platformOS e = ''web'')"

text \<open>
  The body of the \<^verbatim>\<open>useEffect\<close>, which runs after every render. A string is truthy when
  it is not empty.
\<close>

definition colorEffect :: "env \<Rightarrow> component \<Rightarrow> component" where
  "colorEffect e c =
     (if \<not> enableContrastChecking e then c
      else
        (let io1 = detectColors (document e) (clientId (props c))
                     setDetectedColor setDetectedBackgroundColor (styleReads c, cells c);
             io2 = (case subMenuClientId (props c) of
                      None \<Rightarrow> io1
                    | Some sub \<Rightarrow>
                        if sub \<noteq> [] then
                          detectColors (document e) sub
                            setDetectedOverlayColor setDetectedOverlayBackgroundColor io1
                        else io1)
         in c\<lparr>cells := snd io2, styleReads := fst io2\<rparr>))"

subsection \<open>What a render returns\<close>

record justify_toolbar =
  toolbarValue :: "string option"
  allowedControls :: "string list"

record display_settings =
  submenuIconChecked :: bool
  responsiveChecked :: bool

record color_setting =
  settingValue :: "string option"
  settingLabel :: string

record contrast_checker =
  checkerBackgroundColor :: "string option"
  checkerTextColor :: "string option"

record navigation_view =
  justifyToolbar :: "justify_toolbar option"
  displaySettings :: "display_settings option"
  colorSettings :: "color_setting list"
  contrastCheckers :: "contrast_checker list"
  responsiveIsOpen :: bool
  responsiveIsResponsive :: bool

text \<open>
  The two returns of \<^verbatim>\<open>Navigation\<close>: the placeholder, whose only control is
  \<^verbatim>\<open>NavigationPlaceholder\<close> with its \<^verbatim>\<open>onCreate\<close>, and the toolbar, inspector and menu.
  Class names, inline styles and the inner-blocks settings are not part of the view
  modelled here.
\<close>

datatype view = PlaceholderView | NavigationView navigation_view

definition justifyAllowedControls :: "attributes \<Rightarrow> string list" where
  "justifyAllowedControls a =
     (if orientation a = Some ''vertical''
      then [''left'', ''center'', ''right'']
      else [''left'', ''center'', ''right'', ''space-between''])"

definition Navigation :: "env \<Rightarrow> props \<Rightarrow> nav_state \<Rightarrow> view" where
  "Navigation e p s =
     (if isPlaceholderShown s then PlaceholderView
      else NavigationView
        \<lparr> justifyToolbar =
            (if hasItemJustificationControls p
             then Some \<lparr> toolbarValue = itemsJustification (attributes p),
                         allowedControls = justifyAllowedControls (attributes p) \<rparr>
             else None),
          displaySettings =
            (if hasSubmenuIndicatorSetting p
             then Some \<lparr> submenuIconChecked = showSubmenuIcon (attributes p),
                         responsiveChecked = isResponsive (attributes p) \<rparr>
             else None),
          colorSettings =
            [ \<lparr> settingValue = slotColor (textColor p), settingLabel = ''Text'' \<rparr>,
              \<lparr> settingValue = slotColor (backgroundColor p), settingLabel = ''Background'' \<rparr>,
              \<lparr> settingValue = slotColor (overlayTextColor p), settingLabel = ''Overlay text'' \<rparr>,
              \<lparr> settingValue = slotColor (overlayBackgroundColor p),
                settingLabel = ''Overlay background'' \<rparr> ],
          contrastCheckers =
            (if enableContrastChecking e
             then [ \<lparr> checkerBackgroundColor = detectedBackgroundColor s,
                      checkerTextColor = detectedColor s \<rparr>,
                    \<lparr> checkerBackgroundColor = detectedOverlayBackgroundColor s,
                      checkerTextColor = detectedOverlayColor s \<rparr> ]
             else []),
          responsiveIsOpen = isResponsiveMenuOpen s,
          responsiveIsResponsive = isResponsive (attributes p) \<rparr>)"

fun viewJustifyToolbar :: "view \<Rightarrow> justify_toolbar option" where
  "viewJustifyToolbar PlaceholderView = None"
| "viewJustifyToolbar (NavigationView v) = justifyToolbar v"

fun viewDisplaySettings :: "view \<Rightarrow> display_settings option" where
  "viewDisplaySettings PlaceholderView = None"
| "viewDisplaySettings (NavigationView v) = displaySettings v"

fun viewContrastCheckers :: "view \<Rightarrow> contrast_checker list" where
  "viewContrastCheckers PlaceholderView = []"
| "viewContrastCheckers (NavigationView v) = contrastCheckers v"

subsection \<open>Event handlers\<close>

text \<open>
  \<^verbatim>\<open>setAttributes\<close> belongs to the host, which stores the change and renders the
  component again with the new attributes.
\<close>

definition setAttributes :: "(attributes \<Rightarrow> attributes) \<Rightarrow> component \<Rightarrow> component" where
  "setAttributes f c = c\<lparr>props := (props c)\<lparr>attributes := f (attributes (props c))\<rparr>\<rparr>"

text \<open>
  The \<^verbatim>\<open>onCreate\<close> handler given to \<^verbatim>\<open>NavigationPlaceholder\<close>. The value that
  \<^verbatim>\<open>updateInnerBlocks\<close> returns is dropped, as in the source.
\<close>

definition onCreate :: "blocks_arg \<Rightarrow> bool \<Rightarrow> component \<Rightarrow> component" where
  "onCreate blocks selectNavigationBlock c =
     (let c1 = c\<lparr>cells := (cells c)\<lparr>isPlaceholderShown := False\<rparr>\<rparr>;
          c2 = c1\<lparr>dispatched := snd (updateInnerBlocks (clientId (props c)) blocks (dispatched c1))\<rparr>
      in if selectNavigationBlock
         then c2\<lparr>dispatched := dispatched c2 @ [SelectBlock (clientId (props c))]\<rparr>
         else c2)"

text \<open>
  The events of a mounted component: the callbacks of the controls it has rendered, a
  run of the effect, and a render with new props from the host.
\<close>

datatype event =
    OnCreate blocks_arg bool
  | JustifyOnChange "string option"
  | SubmenuIconOnChange bool
  | ResponsiveOnChange bool
  | OnToggle bool
  | Effect
  | NewProps props

text \<open>
  One event. A callback can fire only when the current view has its control: an event
  for a control that is not rendered leaves the component as it is.
\<close>

fun step :: "env \<Rightarrow> component \<Rightarrow> event \<Rightarrow> component" where
  "step e c (OnCreate blocks selectNavigationBlock) =
     (case Navigation e (props c) (cells c) of
        PlaceholderView \<Rightarrow> onCreate blocks selectNavigationBlock c
      | NavigationView v \<Rightarrow> c)"
| "step e c (JustifyOnChange v) =
     (case viewJustifyToolbar (Navigation e (props c) (cells c)) of
        None \<Rightarrow> c
      | Some t \<Rightarrow> setAttributes (\<lambda>a. a\<lparr>itemsJustification := v\<rparr>) c)"
| "step e c (SubmenuIconOnChange v) =
     (case viewDisplaySettings (Navigation e (props c) (cells c)) of
        None \<Rightarrow> c
      | Some d \<Rightarrow> setAttributes (\<lambda>a. a\<lparr>showSubmenuIcon := v\<rparr>) c)"
| "step e c (ResponsiveOnChange v) =
     (case viewDisplaySettings (Navigation e (props c) (cells c)) of
        None \<Rightarrow> c
      | Some d \<Rightarrow> setAttributes (\<lambda>a. a\<lparr>isResponsive := v\<rparr>) c)"
| "step e c (OnToggle v) =
     (case Navigation e (props c) (cells c) of
        PlaceholderView \<Rightarrow> c
      | NavigationView w \<Rightarrow> c\<lparr>cells := (cells c)\<lparr>isResponsiveMenuOpen := v\<rparr>\<rparr>)"
| "step e c Effect = colorEffect e c"
| "step e c (NewProps p) = c\<lparr>props := p\<rparr>"

text \<open>The component after a list of events, from its mount.\<close>

definition run :: "env \<Rightarrow> props \<Rightarrow> event list \<Rightarrow> component" where
  "run e p evs = foldl (step e) (mount p) evs"

subsection \<open>Predicates of the specification on a history of events\<close>

text \<open>A creation event: the placeholder calls \<^verbatim>\<open>onCreate\<close>, whatever it passes.\<close>

fun isCreation :: "event \<Rightarrow> bool" where
  "isCreation (OnCreate blocks selectNavigationBlock) = True"
| "isCreation ev = False"

text \<open>A creation event that supplies child content: its list has at least one block.\<close>

fun suppliesChildContent :: "event \<Rightarrow> bool" where
  "suppliesChildContent (OnCreate (JArray (b # bs)) selectNavigationBlock) = True"
| "suppliesChildContent ev = False"

section \<open>Example inputs\<close>

text \<open>
  A small page: the navigation block's element and its wrapper have a fully transparent
  background, the body is white, the root element is transparent and its parent is the
  document node (type 9). A submenu element inside the navigation has a black
  background; a floating element hangs under the root element and is transparent. A
  tinted element in the body has a white background of alpha zero.
\<close>

definition documentNode :: node where
  "documentNode = Node 9 (Style [] []) None"

definition htmlNode :: node where
  "htmlNode = Node 1 (Style ''rgb(0, 0, 0)'' ''rgba(0, 0, 0, 0)'') (Some documentNode)"

definition bodyNode :: node where
  "bodyNode = Node 1 (Style ''rgb(0, 0, 0)'' ''rgb(255, 255, 255)'') (Some htmlNode)"

definition wrapperNode :: node where
  "wrapperNode = Node 1 (Style ''rgb(40, 48, 61)'' ''rgba(0, 0, 0, 0)'') (Some bodyNode)"

definition navNode :: node where
  "navNode = Node 1 (Style ''rgb(40, 48, 61)'' ''rgba(0, 0, 0, 0)'') (Some wrapperNode)"

definition subNode :: node where
  "subNode = Node 1 (Style ''rgb(255, 255, 255)'' ''rgb(0, 0, 0)'') (Some navNode)"

definition floatNode :: node where
  "floatNode = Node 1 (Style ''rgb(1, 2, 3)'' ''rgba(0, 0, 0, 0)'') (Some htmlNode)"

definition tintNode :: node where
  "tintNode = Node 1 (Style ''rgb(9, 9, 9)'' ''rgba(255, 255, 255, 0)'') (Some bodyNode)"

definition exampleDocument :: document where
  "exampleDocument =
     [(''block-nav'', navNode), (''block-sub'', subNode), (''block-float'', floatNode),
      (''block-tint'', tintNode)]"

definition webEnv :: env where
  "webEnv = \<lparr> platformOS = ''web'', document = exampleDocument \<rparr>"

definition nativeEnv :: env where
  "nativeEnv = \<lparr> platformOS = ''ios'', document = exampleDocument \<rparr>"

definition noColor :: color_slot where
  "noColor = \<lparr> slotColor = None, slotClass = None \<rparr>"

text \<open>The props of a navigation block that has no inner blocks.\<close>

definition emptyNavProps :: props where
  "emptyNavProps =
     \<lparr> isImmediateParentOfSelectedBlock = False,
       selectedBlockHasDescendants = False,
       subMenuClientId = None,
       hasExistingNavItems = False,
       attributes = \<lparr> orientation = Some ''horizontal'', itemsJustification = None,
                      showSubmenuIcon = True, isResponsive = False \<rparr>,
       clientId = ''nav'',
       isSelected = True,
       textColor = noColor,
       backgroundColor = noColor,
       overlayTextColor = noColor,
       overlayBackgroundColor = noColor,
       hasSubmenuIndicatorSetting = True,
       hasItemJustificationControls = True \<rparr>"

text \<open>The props of a vertical, centered navigation block with a submenu.\<close>

definition verticalNavProps :: props where
  "verticalNavProps =
     \<lparr> isImmediateParentOfSelectedBlock = False,
       selectedBlockHasDescendants = False,
       subMenuClientId = Some ''sub'',
       hasExistingNavItems = True,
       attributes = \<lparr> orientation = Some ''vertical'', itemsJustification = Some ''center'',
                      showSubmenuIcon = True, isResponsive = False \<rparr>,
       clientId = ''nav'',
       isSelected = True,
       textColor = noColor,
       backgroundColor = noColor,
       overlayTextColor = noColor,
       overlayBackgroundColor = noColor,
       hasSubmenuIndicatorSetting = True,
       hasItemJustificationControls = True \<rparr>"

definition exampleBlocks :: "block list" where
  "exampleBlocks =
     [ Block ''link1'' [],
       Block ''link2'' [Block ''sub'' [], Block ''sub2'' []],
       Block ''link3'' [Block ''sub3'' []] ]"

definition exampleSelect :: select where
  "exampleSelect =
     \<lparr> getBlocks = (\<lambda>i. if i = ''nav'' then exampleBlocks else [Block ''only'' []]),
       getClientIdsOfDescendants = (\<lambda>ids. Some []),
       hasSelectedInnerBlock = (\<lambda>i deep. False),
       getSelectedBlockClientId = None \<rparr>"

section \<open>Lemmas\<close>

declare backgroundLoop.simps [simp del] elementChain.simps [simp del]

lemma loopWalk_step:
  "loopWalk n =
     (if isTransparentBlack n \<and> parentNode n \<noteq> None \<and> nodeType (the (parentNode n)) = ELEMENT_NODE
      then n # loopWalk (the (parentNode n)) else [n])"
  unfolding loopWalk_def by (subst (1 2) elementChain.simps) simp

lemma loopWalk_not_Nil: "loopWalk n \<noteq> []"
  by (subst loopWalk_step) simp

lemma hd_loopWalk: "hd (loopWalk n) = n"
  by (subst loopWalk_step) simp

lemma backgroundLoop_loopWalk:
  "backgroundLoop n (css_backgroundColor (computedStyle n)) reads =
     ((last (loopWalk n), css_backgroundColor (computedStyle (last (loopWalk n)))),
      reads @ tl (loopWalk n))"
proof (induction n arbitrary: reads rule: elementChain.induct)
  case (1 n)
  show ?case
  proof (cases "isTransparentBlack n \<and> parentNode n \<noteq> None \<and> nodeType (the (parentNode n)) = ELEMENT_NODE")
    case True
    let ?p = "the (parentNode n)"
    have sw: "loopWalk n = n # loopWalk ?p"
      using True by (subst loopWalk_step) simp
    have "backgroundLoop n (css_backgroundColor (computedStyle n)) reads =
          backgroundLoop ?p (css_backgroundColor (computedStyle ?p)) (reads @ [?p])"
      using True by (subst backgroundLoop.simps) (simp add: isTransparentBlack_def getComputedStyle_def)
    also have "\<dots> = ((last (loopWalk ?p), css_backgroundColor (computedStyle (last (loopWalk ?p)))),
                     (reads @ [?p]) @ tl (loopWalk ?p))"
      using True by (intro "1.IH") simp
    also have "(reads @ [?p]) @ tl (loopWalk ?p) = reads @ loopWalk ?p"
      using hd_loopWalk [of ?p] loopWalk_not_Nil [of ?p] by (cases "loopWalk ?p") auto
    finally show ?thesis
      by (simp add: sw loopWalk_not_Nil)
  next
    case False
    have sw: "loopWalk n = [n]"
      using False by (subst loopWalk_step) auto
    have "backgroundLoop n (css_backgroundColor (computedStyle n)) reads =
          ((n, css_backgroundColor (computedStyle n)), reads)"
      using False by (subst backgroundLoop.simps) (auto simp add: isTransparentBlack_def)
    then show ?thesis
      by (simp add: sw)
  qed
qed

lemma detectColors_present:
  assumes "getBlockDOMNode cid doc = Some a"
  shows "detectColors doc cid setColor setBackground (reads, s) =
           (reads @ a # loopWalk a,
            setBackground (css_backgroundColor (computedStyle (last (loopWalk a))))
              (setColor (css_color (computedStyle a)) s))"
proof -
  have "a # a # tl (loopWalk a) = a # loopWalk a"
    using hd_loopWalk [of a] loopWalk_not_Nil [of a] by (cases "loopWalk a") auto
  then show ?thesis
    using assms
    by (simp add: detectColors_def getComputedStyle_def backgroundLoop_loopWalk)
qed

lemma loopWalk_prefix: "prefix (loopWalk n) (elementChain n)"
proof -
  let ?xs = "elementChain n"
  have "prefix (takeWhile isTransparentBlack ?xs @ take 1 (dropWhile isTransparentBlack ?xs))
               (takeWhile isTransparentBlack ?xs @ dropWhile isTransparentBlack ?xs)"
    by (simp add: take_is_prefix del: takeWhile_dropWhile_id)
  then show ?thesis
    by (simp add: loopWalk_def)
qed

lemma loopWalk_butlast: "x \<in> set (butlast (loopWalk n)) \<Longrightarrow> isTransparentBlack x"
  unfolding loopWalk_def
  by (cases "dropWhile isTransparentBlack (elementChain n)")
     (auto simp: butlast_append dest: set_takeWhileD in_set_butlastD)

lemma loopWalk_last:
  "\<not> isTransparentBlack (last (loopWalk n)) \<or> loopWalk n = elementChain n"
proof (cases "dropWhile isTransparentBlack (elementChain n)")
  case Nil
  then have "takeWhile isTransparentBlack (elementChain n) = elementChain n"
    by (simp add: takeWhile_eq_all_conv)
  then have "loopWalk n = elementChain n"
    unfolding loopWalk_def Nil by simp
  then show ?thesis ..
next
  case (Cons y ys)
  then have "\<not> isTransparentBlack y"
    using hd_dropWhile [of isTransparentBlack "elementChain n"] by simp
  moreover have "last (loopWalk n) = y"
    unfolding loopWalk_def Cons by simp
  ultimately show ?thesis
    by simp
qed


lemma transparentBlack_fullyTransparent: "isTransparentBlack n \<Longrightarrow> isFullyTransparent n"
  by (simp add: isTransparentBlack_def isFullyTransparent_def specFullyTransparent_def
      transparent_def suffix_def)

lemma detectColors_absent_io:
  "getBlockDOMNode cid doc = None \<Longrightarrow> detectColors doc cid setColor setBackground io = io"
  by (simp add: detectColors_def)

lemma detectColors_preserves:
  assumes "\<And>v s. Q (setColor v s) = Q s" and "\<And>v s. Q (setBackground v s) = Q s"
  shows "Q (snd (detectColors doc cid setColor setBackground io)) = Q (snd io)"
proof (cases "getBlockDOMNode cid doc")
  case None
  then show ?thesis
    by (simp add: detectColors_absent_io)
next
  case (Some a)
  obtain reads s where io: "io = (reads, s)"
    by (cases io)
  show ?thesis
    unfolding io detectColors_present [OF Some] by (simp add: assms)
qed

lemma colorEffect_placeholder:
  "isPlaceholderShown (cells (colorEffect e c)) = isPlaceholderShown (cells c)"
proof -
  have a: "isPlaceholderShown (snd (detectColors d i setDetectedColor setDetectedBackgroundColor io))
        = isPlaceholderShown (snd io)" for d i io
    by (rule detectColors_preserves) (simp_all add: setDetectedColor_def setDetectedBackgroundColor_def)
  have b: "isPlaceholderShown (snd (detectColors d i setDetectedOverlayColor setDetectedOverlayBackgroundColor io))
        = isPlaceholderShown (snd io)" for d i io
    by (rule detectColors_preserves)
       (simp_all add: setDetectedOverlayColor_def setDetectedOverlayBackgroundColor_def)
  show ?thesis
    by (simp add: colorEffect_def Let_def a b split: option.split)
qed

lemma onCreate_placeholder: "isPlaceholderShown (cells (onCreate blocks sel c)) = False"
  by (simp add: onCreate_def Let_def)

lemma setAttributes_cells: "cells (setAttributes f c) = cells c"
  by (simp add: setAttributes_def)

lemma Navigation_placeholder:
  "(Navigation e p s = PlaceholderView) = isPlaceholderShown s"
  by (simp add: Navigation_def)

lemma step_placeholder:
  "isPlaceholderShown (cells (step e c ev)) = (isPlaceholderShown (cells c) \<and> \<not> isCreation ev)"
proof (cases ev)
  case (OnCreate blocks sel)
  then show ?thesis
    using Navigation_placeholder [of e "props c" "cells c"]
    by (cases "Navigation e (props c) (cells c)") (simp_all add: onCreate_placeholder)
next
  case Effect
  then show ?thesis
    by (simp add: colorEffect_placeholder)
qed (simp_all add: setAttributes_cells split: option.split view.split)

lemma foldl_step_placeholder:
  "isPlaceholderShown (cells (foldl (step e) c evs))
     = (isPlaceholderShown (cells c) \<and> \<not> list_ex isCreation evs)"
  by (induction evs arbitrary: c) (auto simp: step_placeholder)

lemma find_none: "list_all (\<lambda>b. innerBlocks b = []) bs \<Longrightarrow> List.find (\<lambda>b. innerBlocks b \<noteq> []) bs = None"
  by (induction bs) auto

lemma find_first:
  "list_all (\<lambda>b. innerBlocks b = []) pre \<Longrightarrow> innerBlocks b \<noteq> [] \<Longrightarrow>
   List.find (\<lambda>b. innerBlocks b \<noteq> []) (pre @ b # post) = Some b"
  by (induction pre) auto


section \<open>The children-replace operation\<close>

text \<open>
  Claim C1. A call of \<^verbatim>\<open>updateInnerBlocks\<close> with an empty list returns \<^verbatim>\<open>false\<close> and
  dispatches nothing: the list of dispatched actions is the one before the call, so the
  store, and with it the block's children, is as it was. The same holds of the
  \<^verbatim>\<open>onCreate\<close> handler that calls it with an empty list and no selection request.
\<close>

theorem updateInnerBlocks_empty_list:
  "updateInnerBlocks cid (JArray []) d = (ReturnedFalse, d)
   \<and> dispatched (onCreate (JArray []) False c) = dispatched c"
  by (simp add: updateInnerBlocks_def onCreate_def Let_def)

text \<open>
  Claim C10. The guard \<^verbatim>\<open>blocks?.length === 0\<close> is false for \<^verbatim>\<open>undefined\<close> and for
  \<^verbatim>\<open>null\<close>: the call then dispatches \<^verbatim>\<open>replaceInnerBlocks\<close> with that nullish value
  and returns nothing. The call returns \<^verbatim>\<open>false\<close> for the empty list and for no other
  argument.
\<close>

theorem updateInnerBlocks_nullish:
  "optionalLength JUndefined \<noteq> Some 0
   \<and> optionalLength JNull \<noteq> Some 0
   \<and> updateInnerBlocks cid JUndefined d
       = (ReturnedUndefined, d @ [ReplaceInnerBlocks cid JUndefined True])
   \<and> updateInnerBlocks cid JNull d
       = (ReturnedUndefined, d @ [ReplaceInnerBlocks cid JNull True])
   \<and> ((fst (updateInnerBlocks cid blocks d) = ReturnedFalse) = (blocks = JArray []))"
  by (cases blocks) (simp_all add: updateInnerBlocks_def)

section \<open>The color detector\<close>

text \<open>
  Claim C3, as stated, at an element whose computed background is
  \<^verbatim>\<open>rgba(255, 255, 255, 0)\<close> and whose parent, the body, is white. The background is
  fully transparent, so the claim has the detector read the body and report its white.
  The loop compares with the string \<^verbatim>\<open>'rgba(0, 0, 0, 0)'\<close> only: the detector reads the
  element alone and reports \<^verbatim>\<open>rgba(255, 255, 255, 0)\<close>.
\<close>

theorem detectColors_fully_transparent_counterexample:
  "getBlockDOMNode ''tint'' exampleDocument = Some tintNode
   \<and> isFullyTransparent tintNode
   \<and> specWalk tintNode = [tintNode, bodyNode]
   \<and> detectColors exampleDocument ''tint'' setDetectedColor setDetectedBackgroundColor
        ([], cells (mount emptyNavProps))
       = ([tintNode, tintNode],
          setDetectedBackgroundColor ''rgba(255, 255, 255, 0)''
            (setDetectedColor ''rgb(9, 9, 9)'' (cells (mount emptyNavProps))))
   \<and> detectColors exampleDocument ''tint'' setDetectedColor setDetectedBackgroundColor
        ([], cells (mount emptyNavProps))
       \<noteq> (tintNode # specWalk tintNode,
          setDetectedBackgroundColor
            (css_backgroundColor (computedStyle (last (specWalk tintNode))))
            (setDetectedColor (css_color (computedStyle tintNode)) (cells (mount emptyNavProps))))"
proof -
  have tint: "getBlockDOMNode ''tint'' exampleDocument = Some tintNode"
    by (simp add: getBlockDOMNode_def getElementById_def exampleDocument_def)
  have full: "isFullyTransparent tintNode"
    by (simp add: isFullyTransparent_def specFullyTransparent_def tintNode_def suffix_def)
  have chainHtml: "elementChain htmlNode = [htmlNode]"
    by (subst elementChain.simps) (simp add: htmlNode_def documentNode_def ELEMENT_NODE_def)
  have chainBody: "elementChain bodyNode = [bodyNode, htmlNode]"
    by (subst elementChain.simps)
       (simp add: bodyNode_def chainHtml, simp add: htmlNode_def ELEMENT_NODE_def)
  have chainTint: "elementChain tintNode = [tintNode, bodyNode, htmlNode]"
    by (subst elementChain.simps)
       (simp add: tintNode_def chainBody, simp add: bodyNode_def ELEMENT_NODE_def)
  have bodyOpaque: "\<not> isFullyTransparent bodyNode"
    by (simp add: isFullyTransparent_def specFullyTransparent_def bodyNode_def)
  have walk: "specWalk tintNode = [tintNode, bodyNode]"
    unfolding specWalk_def chainTint using full bodyOpaque by simp
  have loop: "loopWalk tintNode = [tintNode]"
    by (subst loopWalk_step) (simp add: isTransparentBlack_def tintNode_def transparent_def)
  have code: "detectColors exampleDocument ''tint'' setDetectedColor setDetectedBackgroundColor
        ([], cells (mount emptyNavProps))
       = ([tintNode, tintNode],
          setDetectedBackgroundColor ''rgba(255, 255, 255, 0)''
            (setDetectedColor ''rgb(9, 9, 9)'' (cells (mount emptyNavProps))))"
    unfolding detectColors_present [OF tint] loop by (simp add: tintNode_def)
  have differs: "detectColors exampleDocument ''tint'' setDetectedColor setDetectedBackgroundColor
        ([], cells (mount emptyNavProps))
       \<noteq> (tintNode # specWalk tintNode,
          setDetectedBackgroundColor
            (css_backgroundColor (computedStyle (last (specWalk tintNode))))
            (setDetectedColor (css_color (computedStyle tintNode)) (cells (mount emptyNavProps))))"
    unfolding code walk by simp
  show ?thesis
    by (intro conjI tint full walk code differs)
qed

text \<open>
  Claim C3, amended. For a node \<open>a\<close> that the detector finds, the computed styles it
  reads are those of \<open>a\<close> (for the text color) and then of the nodes of the loop's walk
  from \<open>a\<close>, in order, and the background it reports is that of the last node of the
  walk. When the background of \<open>a\<close> is not the string \<^verbatim>\<open>'rgba(0, 0, 0, 0)'\<close>, the walk
  is \<open>a\<close> alone: that background is reported and no ancestor is read, also when it is
  another fully transparent color. In every case the walk starts at \<open>a\<close>, follows the
  chain of parent elements, has the background \<^verbatim>\<open>'rgba(0, 0, 0, 0)'\<close>, which is fully
  transparent, at every node but the last, and ends at a node whose background is not
  \<^verbatim>\<open>'rgba(0, 0, 0, 0)'\<close> or at the end of the chain.
\<close>

theorem detectColors_background_walk:
  assumes "getBlockDOMNode cid doc = Some a"
  shows "detectColors doc cid setColor setBackground (reads, s)
           = (reads @ a # loopWalk a,
              setBackground (css_backgroundColor (computedStyle (last (loopWalk a))))
                (setColor (css_color (computedStyle a)) s))
         \<and> (\<not> isTransparentBlack a \<longrightarrow> loopWalk a = [a])
         \<and> hd (loopWalk a) = a
         \<and> prefix (loopWalk a) (elementChain a)
         \<and> list_all isTransparentBlack (butlast (loopWalk a))
         \<and> list_all isFullyTransparent (butlast (loopWalk a))
         \<and> (\<not> isTransparentBlack (last (loopWalk a)) \<or> loopWalk a = elementChain a)"
proof -
  have opaque: "\<not> isTransparentBlack a \<longrightarrow> loopWalk a = [a]"
    by (subst loopWalk_step) simp
  have inner: "list_all isTransparentBlack (butlast (loopWalk a))"
    by (simp add: list_all_iff loopWalk_butlast)
  have full: "list_all isFullyTransparent (butlast (loopWalk a))"
    by (simp add: list_all_iff loopWalk_butlast transparentBlack_fullyTransparent)
  show ?thesis
    using opaque inner full loopWalk_last [of a]
    by (simp add: detectColors_present [OF assms] hd_loopWalk loopWalk_prefix)
qed

theorem detectColors_background_walk_witness:
  "getBlockDOMNode ''nav'' exampleDocument = Some navNode
   \<and> detectColors exampleDocument ''nav'' (\<lambda>v l. l @ [Inl v]) (\<lambda>v l. l @ [Inr v]) ([], [])
       = ([navNode, navNode, wrapperNode, bodyNode],
          [Inl ''rgb(40, 48, 61)'', Inr ''rgb(255, 255, 255)''])
   \<and> getBlockDOMNode ''sub'' exampleDocument = Some subNode
   \<and> \<not> isTransparentBlack subNode
   \<and> detectColors exampleDocument ''sub'' (\<lambda>v l. l @ [Inl v]) (\<lambda>v l. l @ [Inr v]) ([], [])
       = ([subNode, subNode], [Inl ''rgb(255, 255, 255)'', Inr ''rgb(0, 0, 0)''])
   \<and> getBlockDOMNode ''float'' exampleDocument = Some floatNode
   \<and> isTransparentBlack (last (loopWalk floatNode))
   \<and> detectColors exampleDocument ''float'' (\<lambda>v l. l @ [Inl v]) (\<lambda>v l. l @ [Inr v]) ([], [])
       = ([floatNode, floatNode, htmlNode], [Inl ''rgb(1, 2, 3)'', Inr ''rgba(0, 0, 0, 0)''])
   \<and> getBlockDOMNode ''tint'' exampleDocument = Some tintNode
   \<and> \<not> isTransparentBlack tintNode
   \<and> detectColors exampleDocument ''tint'' (\<lambda>v l. l @ [Inl v]) (\<lambda>v l. l @ [Inr v]) ([], [])
       = ([tintNode, tintNode], [Inl ''rgb(9, 9, 9)'', Inr ''rgba(255, 255, 255, 0)''])"
proof -
  have tint: "getBlockDOMNode ''tint'' exampleDocument = Some tintNode"
    by (simp add: getBlockDOMNode_def getElementById_def exampleDocument_def)
  have tinted: "\<not> isTransparentBlack tintNode"
    by (simp add: isTransparentBlack_def tintNode_def transparent_def)
  have walkTint: "loopWalk tintNode = [tintNode]"
    using detectColors_background_walk [OF tint, of "\<lambda>v l. l" "\<lambda>v l. l" "[]" "()"] tinted
    by simp
  have r4: "detectColors exampleDocument ''tint'' (\<lambda>v l. l @ [Inl v]) (\<lambda>v l. l @ [Inr v]) ([], [])
       = ([tintNode, tintNode], [Inl ''rgb(9, 9, 9)'', Inr ''rgba(255, 255, 255, 0)''])"
    using detectColors_background_walk
            [OF tint, of "\<lambda>v l. l @ [Inl v]" "\<lambda>v l. l @ [Inr v]" "[]" "[]"]
    unfolding walkTint by (simp add: tintNode_def)
  have nav: "getBlockDOMNode ''nav'' exampleDocument = Some navNode"
    by (simp add: getBlockDOMNode_def getElementById_def exampleDocument_def)
  have sub: "getBlockDOMNode ''sub'' exampleDocument = Some subNode"
    by (simp add: getBlockDOMNode_def getElementById_def exampleDocument_def)
  have float: "getBlockDOMNode ''float'' exampleDocument = Some floatNode"
    by (simp add: getBlockDOMNode_def getElementById_def exampleDocument_def)
  have opaque: "\<not> isTransparentBlack subNode"
    by (simp add: isTransparentBlack_def subNode_def transparent_def)
  have chainHtml: "elementChain htmlNode = [htmlNode]"
    by (subst elementChain.simps) (simp add: htmlNode_def documentNode_def ELEMENT_NODE_def)
  have chainFloat: "elementChain floatNode = [floatNode, htmlNode]"
    by (subst elementChain.simps) (simp add: floatNode_def chainHtml, simp add: htmlNode_def ELEMENT_NODE_def)
  have chainBody: "elementChain bodyNode = [bodyNode, htmlNode]"
    by (subst elementChain.simps) (simp add: bodyNode_def chainHtml, simp add: htmlNode_def ELEMENT_NODE_def)
  have chainWrapper: "elementChain wrapperNode = [wrapperNode, bodyNode, htmlNode]"
    by (subst elementChain.simps) (simp add: wrapperNode_def chainBody, simp add: bodyNode_def ELEMENT_NODE_def)
  have chainNav: "elementChain navNode = [navNode, wrapperNode, bodyNode, htmlNode]"
    by (subst elementChain.simps) (simp add: navNode_def chainWrapper, simp add: wrapperNode_def ELEMENT_NODE_def)
  have walkNav: "loopWalk navNode = [navNode, wrapperNode, bodyNode]"
    unfolding loopWalk_def chainNav
    by (simp add: isTransparentBlack_def transparent_def navNode_def wrapperNode_def bodyNode_def)
  have walkFloat: "loopWalk floatNode = [floatNode, htmlNode]"
    unfolding loopWalk_def chainFloat
    by (simp add: isTransparentBlack_def transparent_def floatNode_def htmlNode_def)
  have lastFloat: "isTransparentBlack (last (loopWalk floatNode))"
    unfolding walkFloat by (simp add: isTransparentBlack_def transparent_def htmlNode_def)
  have walkSub: "loopWalk subNode = [subNode]"
    using detectColors_background_walk [OF sub, of "\<lambda>v l. l" "\<lambda>v l. l" "[]" "()"] opaque by simp
  have r1: "detectColors exampleDocument ''nav'' (\<lambda>v l. l @ [Inl v]) (\<lambda>v l. l @ [Inr v]) ([], [])
       = ([navNode, navNode, wrapperNode, bodyNode],
          [Inl ''rgb(40, 48, 61)'', Inr ''rgb(255, 255, 255)''])"
    using detectColors_background_walk [OF nav, of "\<lambda>v l. l @ [Inl v]" "\<lambda>v l. l @ [Inr v]" "[]" "[]"]
    unfolding walkNav by (simp add: navNode_def bodyNode_def)
  have r2: "detectColors exampleDocument ''sub'' (\<lambda>v l. l @ [Inl v]) (\<lambda>v l. l @ [Inr v]) ([], [])
       = ([subNode, subNode], [Inl ''rgb(255, 255, 255)'', Inr ''rgb(0, 0, 0)''])"
    using detectColors_background_walk [OF sub, of "\<lambda>v l. l @ [Inl v]" "\<lambda>v l. l @ [Inr v]" "[]" "[]"]
    unfolding walkSub by (simp add: subNode_def)
  have r3: "detectColors exampleDocument ''float'' (\<lambda>v l. l @ [Inl v]) (\<lambda>v l. l @ [Inr v]) ([], [])
       = ([floatNode, floatNode, htmlNode], [Inl ''rgb(1, 2, 3)'', Inr ''rgba(0, 0, 0, 0)''])"
    using detectColors_background_walk [OF float, of "\<lambda>v l. l @ [Inl v]" "\<lambda>v l. l @ [Inr v]" "[]" "[]"]
    unfolding walkFloat by (simp add: floatNode_def htmlNode_def)
  show ?thesis
    by (intro conjI nav r1 sub opaque r2 float lastFloat r3 tint tinted r4)
qed

text \<open>
  Claim C8. When no node has the id \<^verbatim>\<open>block-\<close> followed by the client identifier, the
  detector returns at once: for any two callbacks, the state they act on and the list of
  style reads are the ones before the call. With callbacks that record their calls, the
  record stays empty.
\<close>

theorem detectColors_missing_node:
  assumes "getBlockDOMNode cid doc = None"
  shows "detectColors doc cid setColor setBackground io = io
         \<and> detectColors doc cid (\<lambda>v l. l @ [Inl v]) (\<lambda>v l. l @ [Inr v]) (reads, []) = (reads, [])"
  using assms by (simp add: detectColors_def)

theorem detectColors_missing_node_witness:
  "getBlockDOMNode ''link1'' exampleDocument = None
   \<and> detectColors exampleDocument ''link1'' setDetectedColor setDetectedBackgroundColor
        ([], cells (mount emptyNavProps)) = ([], cells (mount emptyNavProps))
   \<and> detectColors exampleDocument ''link1'' (\<lambda>v l. l @ [Inl v]) (\<lambda>v l. l @ [Inr v]) ([], [])
        = ([], [])"
proof -
  have missing: "getBlockDOMNode ''link1'' exampleDocument = None"
    by (simp add: getBlockDOMNode_def getElementById_def exampleDocument_def)
  show ?thesis
    using missing detectColors_missing_node [OF missing] by simp
qed

text \<open>
  Claim C9. When the node \<open>a\<close> is present, the state after the call is the state before
  it, changed by one call of the text-color callback with the computed color of \<open>a\<close>
  and then one call of the background callback with the discovered background, for any
  two callbacks and any state: nothing else acts on the state. With callbacks that
  record their calls, the record is these two calls. The list of style reads is only
  extended.
\<close>

theorem detectColors_callbacks_only:
  assumes "getBlockDOMNode cid doc = Some a"
  shows "snd (detectColors doc cid setColor setBackground (reads, s))
           = setBackground (css_backgroundColor (computedStyle (last (loopWalk a))))
               (setColor (css_color (computedStyle a)) s)
         \<and> snd (detectColors doc cid (\<lambda>v l. l @ [Inl v]) (\<lambda>v l. l @ [Inr v]) (reads, []))
           = [Inl (css_color (computedStyle a)),
              Inr (css_backgroundColor (computedStyle (last (loopWalk a))))]
         \<and> prefix reads (fst (detectColors doc cid setColor setBackground (reads, s)))"
  by (simp add: detectColors_present [OF assms])

theorem detectColors_callbacks_only_witness:
  "getBlockDOMNode ''sub'' exampleDocument = Some subNode
   \<and> snd (detectColors exampleDocument ''sub'' setDetectedOverlayColor
            setDetectedOverlayBackgroundColor ([], cells (mount verticalNavProps)))
       = (cells (mount verticalNavProps))
           \<lparr> detectedOverlayBackgroundColor := Some ''rgb(0, 0, 0)'',
             detectedOverlayColor := Some ''rgb(255, 255, 255)'' \<rparr>
   \<and> snd (detectColors exampleDocument ''sub'' (\<lambda>v l. l @ [Inl v]) (\<lambda>v l. l @ [Inr v]) ([], []))
       = [Inl ''rgb(255, 255, 255)'', Inr ''rgb(0, 0, 0)'']"
proof -
  have sub: "getBlockDOMNode ''sub'' exampleDocument = Some subNode"
    by (simp add: getBlockDOMNode_def getElementById_def exampleDocument_def)
  have walkSub: "loopWalk subNode = [subNode]"
    by (subst loopWalk_step) (simp add: isTransparentBlack_def subNode_def transparent_def)
  show ?thesis
    using sub
      detectColors_callbacks_only [OF sub, of setDetectedOverlayColor
        setDetectedOverlayBackgroundColor "[]" "cells (mount verticalNavProps)"]
    unfolding walkSub
    by (simp add: subNode_def setDetectedOverlayColor_def setDetectedOverlayBackgroundColor_def)
qed

section \<open>Derived props\<close>

text \<open>
  Claim C7. The \<^verbatim>\<open>subMenuClientId\<close> that \<^verbatim>\<open>withSelect\<close> derives from the inner blocks of
  the navigation block is undefined when no inner block has inner blocks of its own;
  when the inner blocks are some blocks without children followed by a block whose
  children are \<open>g\<close> and others, it is the client identifier of \<open>g\<close>, the first
  grandchild under the first child that has children.
\<close>

theorem subMenuClientId_first_grandchild:
  "(list_all (\<lambda>b. innerBlocks b = []) (getBlocks sel cid)
      \<longrightarrow> subMenuClientId (withSelect sel cid) = None)
   \<and> (getBlocks sel cid = pre @ Block i (g # gs) # post
        \<and> list_all (\<lambda>b. innerBlocks b = []) pre
      \<longrightarrow> subMenuClientId (withSelect sel cid) = Some (blockClientId g))"
  by (auto simp: withSelect_def Let_def find_none find_first)

theorem subMenuClientId_first_grandchild_witness:
  "list_all (\<lambda>b. innerBlocks b = []) (getBlocks exampleSelect ''other'')
   \<and> subMenuClientId (withSelect exampleSelect ''other'') = None
   \<and> getBlocks exampleSelect ''nav''
       = [Block ''link1'' []] @ Block ''link2'' (Block ''sub'' [] # [Block ''sub2'' []])
           # [Block ''link3'' [Block ''sub3'' []]]
   \<and> list_all (\<lambda>b. innerBlocks b = []) [Block ''link1'' []]
   \<and> subMenuClientId (withSelect exampleSelect ''nav'') = Some ''sub''"
proof -
  have none: "list_all (\<lambda>b. innerBlocks b = []) (getBlocks exampleSelect ''other'')"
    by (simp add: exampleSelect_def)
  have blocks: "getBlocks exampleSelect ''nav''
       = [Block ''link1'' []] @ Block ''link2'' (Block ''sub'' [] # [Block ''sub2'' []])
           # [Block ''link3'' [Block ''sub3'' []]]"
    by (simp add: exampleSelect_def exampleBlocks_def)
  have pre: "list_all (\<lambda>b. innerBlocks b = []) [Block ''link1'' []]"
    by simp
  have r1: "subMenuClientId (withSelect exampleSelect ''other'') = None"
    using subMenuClientId_first_grandchild [of exampleSelect "''other''"] none by blast
  have r2: "subMenuClientId (withSelect exampleSelect ''nav'') = Some ''sub''"
    using subMenuClientId_first_grandchild
            [of exampleSelect "''nav''" "[Block ''link1'' []]" "''link2''" "Block ''sub'' []"
                "[Block ''sub2'' []]" "[Block ''link3'' [Block ''sub3'' []]]"]
          blocks pre
    by simp
  show ?thesis
    by (intro conjI none r1 blocks pre r2)
qed

section \<open>The rendered controls\<close>

text \<open>
  Claim C5. The allowed controls of the justification toolbar are left, center and
  right when \<^verbatim>\<open>attributes.orientation\<close> is \<^verbatim>\<open>'vertical'\<close>, and left, center, right and
  space-between otherwise, so also when it is \<^verbatim>\<open>'horizontal'\<close>. A rendered toolbar has
  \<^verbatim>\<open>attributes.itemsJustification\<close> as its value and these controls as its options, and
  the toolbar is rendered when the placeholder is not shown and
  \<^verbatim>\<open>hasItemJustificationControls\<close> is on.
\<close>

theorem justify_allowed_controls:
  "(orientation (attributes p) = Some ''vertical''
      \<longrightarrow> justifyAllowedControls (attributes p) = [''left'', ''center'', ''right''])
   \<and> (orientation (attributes p) \<noteq> Some ''vertical''
      \<longrightarrow> justifyAllowedControls (attributes p)
            = [''left'', ''center'', ''right'', ''space-between''])
   \<and> (viewJustifyToolbar (Navigation e p s) = Some t
      \<longrightarrow> toolbarValue t = itemsJustification (attributes p)
          \<and> allowedControls t = justifyAllowedControls (attributes p))
   \<and> (\<not> isPlaceholderShown s \<and> hasItemJustificationControls p
      \<longrightarrow> viewJustifyToolbar (Navigation e p s)
            = Some \<lparr> toolbarValue = itemsJustification (attributes p),
                     allowedControls = justifyAllowedControls (attributes p) \<rparr>)"
  by (auto simp: justifyAllowedControls_def Navigation_def split: if_splits)

theorem justify_allowed_controls_witness:
  "orientation (attributes verticalNavProps) = Some ''vertical''
   \<and> itemsJustification (attributes verticalNavProps) = Some ''center''
   \<and> \<not> isPlaceholderShown (cells (mount verticalNavProps))
   \<and> hasItemJustificationControls verticalNavProps
   \<and> viewJustifyToolbar (Navigation webEnv verticalNavProps (cells (mount verticalNavProps)))
       = Some \<lparr> toolbarValue = Some ''center'',
                allowedControls = [''left'', ''center'', ''right''] \<rparr>
   \<and> orientation (attributes emptyNavProps) = Some ''horizontal''
   \<and> justifyAllowedControls (attributes emptyNavProps)
       = [''left'', ''center'', ''right'', ''space-between'']"
proof -
  have vertical: "orientation (attributes verticalNavProps) = Some ''vertical''"
    and center: "itemsJustification (attributes verticalNavProps) = Some ''center''"
    and shown: "\<not> isPlaceholderShown (cells (mount verticalNavProps))"
    and controls: "hasItemJustificationControls verticalNavProps"
    by (simp_all add: verticalNavProps_def mount_def)
  have horizontal: "orientation (attributes emptyNavProps) = Some ''horizontal''"
    by (simp add: emptyNavProps_def)
  note thm1 = justify_allowed_controls
                [of verticalNavProps webEnv "cells (mount verticalNavProps)"]
  note thm2 = justify_allowed_controls [of emptyNavProps]
  have r1: "viewJustifyToolbar (Navigation webEnv verticalNavProps (cells (mount verticalNavProps)))
       = Some \<lparr> toolbarValue = Some ''center'',
                allowedControls = [''left'', ''center'', ''right''] \<rparr>"
    using thm1 vertical center shown controls by simp
  have r2: "justifyAllowedControls (attributes emptyNavProps)
       = [''left'', ''center'', ''right'', ''space-between'']"
    using thm2 horizontal by simp
  show ?thesis
    by (intro conjI vertical center shown controls r1 horizontal r2)
qed

text \<open>
  Claim C6, as stated, at a block without inner blocks on the web: the placeholder is
  shown, so the render has no contrast-warning display, although \<^verbatim>\<open>Platform.OS\<close> is
  \<^verbatim>\<open>'web'\<close>.
\<close>

theorem contrast_checkers_iff_web_counterexample:
  "\<not> ((length (viewContrastCheckers
                (Navigation webEnv emptyNavProps (cells (mount emptyNavProps)))) = 2)
       = (platformOS webEnv = ''web''))"
  by (simp add: Navigation_def mount_def emptyNavProps_def webEnv_def)

text \<open>
  Claim C6, amended. When the placeholder is not shown, the two contrast-warning
  displays (the detected colors of the block, then those of the submenu) are rendered
  if and only if \<^verbatim>\<open>Platform.OS\<close> is \<^verbatim>\<open>'web'\<close>; while the placeholder is shown there is none
  on any platform. On a platform other than the web there is none in any state, and the
  color-detection effect leaves the component as it is: no style is read and no
  detected color is set.
\<close>

theorem contrast_checkers_web_only:
  "(\<not> isPlaceholderShown s \<longrightarrow>
      (viewContrastCheckers (Navigation e p s)
         = [ \<lparr> checkerBackgroundColor = detectedBackgroundColor s,
               checkerTextColor = detectedColor s \<rparr>,
             \<lparr> checkerBackgroundColor = detectedOverlayBackgroundColor s,
               checkerTextColor = detectedOverlayColor s \<rparr> ])
      = (platformOS e = ''web''))
   \<and> (isPlaceholderShown s \<longrightarrow> viewContrastCheckers (Navigation e p s) = [])
   \<and> (platformOS e \<noteq> ''web'' \<longrightarrow>
        viewContrastCheckers (Navigation e p s) = [] \<and> colorEffect e c = c)"
  by (auto simp: Navigation_def enableContrastChecking_def colorEffect_def)

theorem contrast_checkers_web_only_witness:
  "\<not> isPlaceholderShown (cells (mount verticalNavProps))
   \<and> platformOS webEnv = ''web''
   \<and> viewContrastCheckers (Navigation webEnv verticalNavProps (cells (mount verticalNavProps)))
       = [ \<lparr> checkerBackgroundColor = None, checkerTextColor = None \<rparr>,
           \<lparr> checkerBackgroundColor = None, checkerTextColor = None \<rparr> ]
   \<and> isPlaceholderShown (cells (mount emptyNavProps))
   \<and> viewContrastCheckers (Navigation webEnv emptyNavProps (cells (mount emptyNavProps))) = []
   \<and> platformOS nativeEnv \<noteq> ''web''
   \<and> viewContrastCheckers (Navigation nativeEnv verticalNavProps (cells (mount verticalNavProps)))
       = []
   \<and> colorEffect nativeEnv (mount verticalNavProps) = mount verticalNavProps"
proof -
  have populated: "\<not> isPlaceholderShown (cells (mount verticalNavProps))"
    and empty: "isPlaceholderShown (cells (mount emptyNavProps))"
    by (simp_all add: mount_def verticalNavProps_def emptyNavProps_def)
  have web: "platformOS webEnv = ''web''" and native: "platformOS nativeEnv \<noteq> ''web''"
    by (simp_all add: webEnv_def nativeEnv_def)
  have r1: "viewContrastCheckers (Navigation webEnv verticalNavProps (cells (mount verticalNavProps)))
       = [ \<lparr> checkerBackgroundColor = None, checkerTextColor = None \<rparr>,
           \<lparr> checkerBackgroundColor = None, checkerTextColor = None \<rparr> ]"
    using contrast_checkers_web_only [of "cells (mount verticalNavProps)" webEnv verticalNavProps]
      populated web
    by (simp add: mount_def)
  have r2: "viewContrastCheckers (Navigation webEnv emptyNavProps (cells (mount emptyNavProps))) = []"
    using contrast_checkers_web_only [of "cells (mount emptyNavProps)" webEnv emptyNavProps] empty
    by simp
  have r3: "viewContrastCheckers (Navigation nativeEnv verticalNavProps (cells (mount verticalNavProps)))
       = []"
    and r4: "colorEffect nativeEnv (mount verticalNavProps) = mount verticalNavProps"
    using contrast_checkers_web_only
            [of "cells (mount verticalNavProps)" nativeEnv verticalNavProps "mount verticalNavProps"]
          native
    by simp_all
  show ?thesis
    by (intro conjI populated web r1 empty r2 native r3 r4)
qed

section \<open>The placeholder\<close>

text \<open>
  Claim C2, as stated, at a block without inner blocks whose placeholder calls
  \<^verbatim>\<open>onCreate\<close> with an empty list: no inner block existed at mount and the one creation
  event supplied no child content, yet the placeholder is no longer shown.
\<close>

theorem placeholder_iff_content_counterexample:
  "\<not> (isPlaceholderShown (cells (run webEnv emptyNavProps [OnCreate (JArray []) False]))
       = (\<not> hasExistingNavItems emptyNavProps
          \<and> \<not> list_ex suppliesChildContent [OnCreate (JArray []) False]))"
  by (simp add: run_def mount_def emptyNavProps_def Navigation_def onCreate_def Let_def)

text \<open>
  Claim C2, amended. In every state the component reaches from its mount, the
  placeholder is shown exactly when \<^verbatim>\<open>hasExistingNavItems\<close> was false at mount and no
  creation event has occurred since, whatever list of blocks the event carried: an
  \<^verbatim>\<open>onCreate\<close> with an empty list, or with a nullish value, hides the placeholder as
  well. Later props, the effect and the other controls do not change it.
\<close>

theorem placeholder_iff_no_creation:
  "isPlaceholderShown (cells (run e p evs))
     = (\<not> hasExistingNavItems p \<and> \<not> list_ex isCreation evs)"
  by (simp add: run_def foldl_step_placeholder mount_def)

theorem placeholder_iff_no_creation_witness:
  "isPlaceholderShown (cells (run webEnv emptyNavProps [Effect, NewProps verticalNavProps, Effect]))
   \<and> \<not> isPlaceholderShown
         (cells (run webEnv emptyNavProps [Effect, OnCreate (JArray [Block ''a'' []]) True, Effect]))
   \<and> \<not> isPlaceholderShown (cells (run webEnv emptyNavProps [OnCreate JUndefined False]))
   \<and> \<not> isPlaceholderShown (cells (run webEnv verticalNavProps []))"
proof -
  have r1: "isPlaceholderShown
              (cells (run webEnv emptyNavProps [Effect, NewProps verticalNavProps, Effect]))"
    using placeholder_iff_no_creation
            [of webEnv emptyNavProps "[Effect, NewProps verticalNavProps, Effect]"]
    by (simp add: emptyNavProps_def)
  have r2: "\<not> isPlaceholderShown
         (cells (run webEnv emptyNavProps [Effect, OnCreate (JArray [Block ''a'' []]) True, Effect]))"
    using placeholder_iff_no_creation
            [of webEnv emptyNavProps "[Effect, OnCreate (JArray [Block ''a'' []]) True, Effect]"]
    by simp
  have r3: "\<not> isPlaceholderShown (cells (run webEnv emptyNavProps [OnCreate JUndefined False]))"
    using placeholder_iff_no_creation [of webEnv emptyNavProps "[OnCreate JUndefined False]"]
    by simp
  have r4: "\<not> isPlaceholderShown (cells (run webEnv verticalNavProps []))"
    using placeholder_iff_no_creation [of webEnv verticalNavProps "[]"]
    by (simp add: verticalNavProps_def)
  show ?thesis
    by (intro conjI r1 r2 r3 r4)
qed

text \<open>
  Claim C4. Once the placeholder is not shown, it is not shown after any further
  sequence of events: in particular after any continuation of a run that has reached
  such a state. The \<^verbatim>\<open>onCreate\<close> handler, the only one that writes the cell, writes
  false in whatever state it is called.
\<close>

theorem placeholder_never_returns:
  "(\<not> isPlaceholderShown (cells c) \<longrightarrow> \<not> isPlaceholderShown (cells (foldl (step e) c evs)))
   \<and> (\<not> isPlaceholderShown (cells (run e p evs))
        \<longrightarrow> \<not> isPlaceholderShown (cells (run e p (evs @ evs'))))
   \<and> \<not> isPlaceholderShown (cells (onCreate blocks selectNavigationBlock c))"
  by (simp add: run_def foldl_step_placeholder onCreate_placeholder)

theorem placeholder_never_returns_witness:
  "\<not> isPlaceholderShown (cells (mount verticalNavProps))
   \<and> \<not> isPlaceholderShown
         (cells (foldl (step webEnv) (mount verticalNavProps)
                   [Effect, OnCreate (JArray []) False, NewProps emptyNavProps, OnToggle True]))
   \<and> \<not> isPlaceholderShown (cells (run webEnv emptyNavProps [OnCreate (JArray []) False]))
   \<and> \<not> isPlaceholderShown
         (cells (run webEnv emptyNavProps
                   ([OnCreate (JArray []) False] @ [NewProps emptyNavProps, Effect])))"
proof -
  have populated: "\<not> isPlaceholderShown (cells (mount verticalNavProps))"
    by (simp add: mount_def verticalNavProps_def)
  have created: "\<not> isPlaceholderShown (cells (run webEnv emptyNavProps [OnCreate (JArray []) False]))"
    by (simp add: run_def mount_def emptyNavProps_def Navigation_def onCreate_def Let_def)
  have r1: "\<not> isPlaceholderShown
         (cells (foldl (step webEnv) (mount verticalNavProps)
                   [Effect, OnCreate (JArray []) False, NewProps emptyNavProps, OnToggle True]))"
    using placeholder_never_returns [of "mount verticalNavProps" webEnv] populated by blast
  have r2: "\<not> isPlaceholderShown
         (cells (run webEnv emptyNavProps
                   ([OnCreate (JArray []) False] @ [NewProps emptyNavProps, Effect])))"
    using placeholder_never_returns [of _ webEnv "[OnCreate (JArray []) False]" emptyNavProps]
      created by blast
  show ?thesis
    by (intro conjI populated r1 created r2)
qed

end
